theory Spec2Isabelle
  imports Main "HOL-Library.Sublist"
begin

section \<open>Values, strings and effects\<close>

text \<open>
  The plugin is TypeScript running on the Homebridge host. Strings are modelled as
  \<open>string\<close> (one \<open>char\<close> per code unit), the values that travel through
  characteristics and JSON fields as \<open>jsValue\<close>, and every effect of the code (a log
  line, a network request, a call into the host, a HomeKit callback) as an event appended
  to a trace, in the order the code performs it.
\<close>

datatype jsValue = JUndefined | JNull | JBool bool | JNum int | JStr string

fun showNat :: "nat \<Rightarrow> string" where
  "showNat n =
     (if n < 10 then [''0123456789'' ! n]
      else showNat (n div 10) @ [''0123456789'' ! (n mod 10)])"

declare showNat.simps [simp del]

text \<open>
  \<open>String(v)\<close> and the coercion of \<open>'...' + v\<close>. A number is an integer of
  magnitude below \<open>10^21\<close>, which JavaScript prints in plain decimal digits, as it
  does HomeKit's percentages; larger and fractional numbers are not values of this model.
\<close>

fun String_js :: "jsValue \<Rightarrow> string" where
  "String_js JUndefined = ''undefined''"
| "String_js JNull = ''null''"
| "String_js (JBool b) = (if b then ''true'' else ''false'')"
| "String_js (JNum i) = (if i < 0 then ''-'' @ showNat (nat (- i)) else showNat (nat i))"
| "String_js (JStr s) = s"

text \<open>
  \<open>s.includes(pat)\<close>; \<open>s.match(pat)\<close> with a pattern string free of regular-expression
  metacharacters (\<open>'undefined'\<close>, \<open>'true'\<close>) is truthy on the same strings.
\<close>

fun includes_js :: "string \<Rightarrow> string \<Rightarrow> bool" where
  "includes_js [] pat = (pat = [])"
| "includes_js (c # cs) pat = (prefix pat (c # cs) \<or> includes_js cs pat)"

text \<open>\<open>s.substring(a, b)\<close>: both indices are clamped to the length and swapped if needed.\<close>

definition substring :: "nat \<Rightarrow> nat \<Rightarrow> string \<Rightarrow> string" where
  "substring a b s =
     (let a' = min a (length s); b' = min b (length s);
          lo = min a' b'; hi = max a' b'
      in take (hi - lo) (drop lo s))"

text \<open>
  \<open>xs[i] = v\<close> on a JavaScript array: an index inside the array overwrites, the index
  \<open>length xs\<close> appends. (A larger index would leave holes; the only caller starts its
  counter at zero and raises it by one with each write, so it never passes one.)
\<close>

definition assignAt :: "'a list \<Rightarrow> nat \<Rightarrow> 'a \<Rightarrow> 'a list" where
  "assignAt xs i v = (if i < length xs then xs[i := v] else xs @ [v])"

text \<open>What \<open>await fetch(uri)\<close> followed by \<open>await response.json()\<close> yields.\<close>

datatype 'a fetched = Rejected | NotJson | Json 'a

datatype jsError = FetchError | JsonError | TypeError

text \<open>How an \<open>async\<close> function ends: its promise resolves, or rejects with an error.\<close>

datatype outcome = Returned | Threw jsError

section \<open>Data of the platform (platform.ts)\<close>

record zoneInfo =
  Name :: string
  ID :: string

text \<open>An entry of the \<open>GET /zones\<close> response.\<close>

record zoneJson =
  json_Name :: string
  PersistentZoneID :: string

text \<open>The \<open>GET /system/info\<close> response.\<close>

record matrixInfo =
  Title :: string

record systemInfo =
  AppName :: string
  CasaTunesVersion :: string
  MatrixInfo :: "matrixInfo list"

record platformInfo =
  Manufacturer :: string
  Model :: string
  SoftwareRevision :: string

datatype characteristic = On | Brightness

text \<open>
  A host accessory: its display name, its UUID, and the zone stored in
  \<open>accessory.context.device\<close> when the platform created it.
\<close>

record PlatformAccessory =
  displayName :: string
  UUID :: string
  context_device :: zoneInfo

datatype level = LvError | LvInfo | LvDebug

datatype event =
    Log level "string list"
  | Fetch string
  | Construct PlatformAccessory
  | SetZoneId PlatformAccessory string
  | registerPlatformAccessories PlatformAccessory
  | updatePlatformAccessories PlatformAccessory
  | unregisterPlatformAccessories PlatformAccessory
  | setCharacteristic PlatformAccessory characteristic jsValue
  | CallbackSet
  | CallbackGet jsValue

text \<open>The fields of \<open>CasaTunesHomebridgePlatform\<close>, and the trace of its effects.\<close>

record platform =
  platformInfo :: platformInfo
  accessories :: "PlatformAccessory list"
  casaTunesUri :: string
  zonesArray :: "zoneInfo list"
  trace :: "event list"

definition emit :: "event list \<Rightarrow> platform \<Rightarrow> platform" where
  "emit es p = p\<lparr>trace := trace p @ es\<rparr>"

definition uriError :: string where
  "uriError = ''URI for CasaTunes API is not defined in the config''"

section \<open>fetchPlatformInfo and fetchZones\<close>

definition matrixString :: string where
  "matrixString = ''Matrix: ''"

definition fetchPlatformInfo :: "systemInfo fetched \<Rightarrow> platform \<Rightarrow> platform \<times> outcome" where
  "fetchPlatformInfo response p =
     (if includes_js (casaTunesUri p) ''undefined'' then
        (emit [Log LvError [uriError]] p, Returned)
      else
        let p1 = emit [Fetch (casaTunesUri p @ ''/system/info'')] p in
        case response of
          Rejected \<Rightarrow> (p1, Threw FetchError)
        | NotJson \<Rightarrow> (p1, Threw JsonError)
        | Json info \<Rightarrow>
            let p2 = p1\<lparr>platformInfo := (platformInfo p1)\<lparr>Manufacturer := AppName info\<rparr>\<rparr> in
            (case MatrixInfo info of
               [] \<Rightarrow> (p2, Threw TypeError)
             | m # _ \<Rightarrow>
                 let p3 = p2\<lparr>platformInfo := (platformInfo p2)\<lparr>Model := Title m\<rparr>\<rparr>;
                     p4 = p3\<lparr>platformInfo :=
                            (platformInfo p3)\<lparr>SoftwareRevision := CasaTunesVersion info\<rparr>\<rparr>;
                     p5 = (if includes_js (Model (platformInfo p4)) matrixString then
                             p4\<lparr>platformInfo := (platformInfo p4)\<lparr>Model :=
                                   substring (length matrixString)
                                     (length (Model (platformInfo p4)))
                                     (Model (platformInfo p4))\<rparr>\<rparr>
                           else p4)
                 in (emit [Log LvDebug
                            [''Manufacturer = '' @ Manufacturer (platformInfo p5) @
                             '', Model = '' @ Model (platformInfo p5) @
                             '', Software Revision = '' @ SoftwareRevision (platformInfo p5)]] p5,
                     Returned)))"

text \<open>
  The loop of \<open>fetchZones\<close> over the response, with its counter \<open>count\<close>: an entry
  whose persistent id has no \<open>@\<close> is logged and written to \<open>zonesArray[count]\<close>.
\<close>

fun storeZones :: "zoneJson list \<Rightarrow> nat \<Rightarrow> platform \<Rightarrow> platform" where
  "storeZones [] count p = p"
| "storeZones (z # zones) count p =
     (if \<not> includes_js (PersistentZoneID z) ''@'' then
        let p1 = emit [Log LvDebug [''Found Zone: name = '' @ json_Name z @
                                     '', id = '' @ PersistentZoneID z]] p;
            temp = \<lparr>Name = json_Name z, ID = PersistentZoneID z\<rparr>;
            p2 = p1\<lparr>zonesArray := assignAt (zonesArray p1) count temp\<rparr>
        in storeZones zones (Suc count) p2
      else storeZones zones count p)"

definition fetchZones :: "zoneJson list fetched \<Rightarrow> platform \<Rightarrow> platform \<times> outcome" where
  "fetchZones response p =
     (if includes_js (casaTunesUri p) ''undefined'' then
        (emit [Log LvError [uriError]] p, Returned)
      else
        let p1 = emit [Fetch (casaTunesUri p @ ''/zones'')] p in
        case response of
          Rejected \<Rightarrow> (p1, Threw FetchError)
        | NotJson \<Rightarrow> (p1, Threw JsonError)
        | Json zones \<Rightarrow> (storeZones zones 0 p1, Returned))"

section \<open>discoverDevices\<close>

text \<open>
  \<open>api.hap.uuid.generate\<close> belongs to the host; it is the parameter \<open>generate\<close>.
  \<open>new CasaTunesPlatformAccessory(this, accessory)\<close> is the event \<open>Construct\<close> (the
  constructor writes the accessory's information strings and binds the handlers below),
  \<open>setZoneId\<close> the event \<open>SetZoneId\<close> followed by its debug line.
\<close>

definition newAccessory :: "(string \<Rightarrow> string) \<Rightarrow> zoneInfo \<Rightarrow> PlatformAccessory" where
  "newAccessory generate zone =
     \<lparr>displayName = Name zone, UUID = generate (ID zone), context_device = zone\<rparr>"

text \<open>The first loop: over the zones, restoring or registering an accessory for each.\<close>

fun registerLoop :: "(string \<Rightarrow> string) \<Rightarrow> zoneInfo list \<Rightarrow> platform \<Rightarrow> platform" where
  "registerLoop generate [] p = p"
| "registerLoop generate (zone # zones) p =
     (let uuid = generate (ID zone) in
      case find (\<lambda>accessory. UUID accessory = uuid) (accessories p) of
        Some existingAccessory \<Rightarrow>
          registerLoop generate zones
            (emit [Log LvInfo [''Restoring existing accessory from cache:'',
                               displayName existingAccessory],
                   Construct existingAccessory,
                   SetZoneId existingAccessory (ID zone),
                   Log LvDebug [''Set '' @ displayName existingAccessory @ '' zone ID ->'',
                                ID zone],
                   updatePlatformAccessories existingAccessory] p)
      | None \<Rightarrow>
          let accessory = newAccessory generate zone in
          registerLoop generate zones
            (emit [Log LvInfo [''Adding new accessory:'', Name zone],
                   Construct accessory,
                   registerPlatformAccessories accessory] p))"

text \<open>The second loop: over the restored accessories, unregistering the unmatched ones.\<close>

fun unregisterLoop ::
  "(string \<Rightarrow> string) \<Rightarrow> PlatformAccessory list \<Rightarrow> platform \<Rightarrow> platform" where
  "unregisterLoop generate [] p = p"
| "unregisterLoop generate (accessory # rest) p =
     (case find (\<lambda>zone. generate (ID zone) = UUID accessory) (zonesArray p) of
        None \<Rightarrow>
          unregisterLoop generate rest
            (emit [unregisterPlatformAccessories accessory,
                   Log LvInfo [''Removing existing accessory from cache:'',
                               displayName accessory]] p)
      | Some existingDevice \<Rightarrow> unregisterLoop generate rest p)"

definition discoverDevices ::
  "(string \<Rightarrow> string) \<Rightarrow> zoneJson list fetched \<Rightarrow> platform \<Rightarrow> platform \<times> outcome" where
  "discoverDevices generate response p =
     (case fetchZones response p of
        (p1, Threw e) \<Rightarrow> (p1, Threw e)
      | (p1, Returned) \<Rightarrow>
          let p2 = registerLoop generate (zonesArray p1) p1
          in (unregisterLoop generate (accessories p2) p2, Returned))"

section \<open>A launch: constructor, configureAccessory, didFinishLaunching\<close>






section \<open>The characteristic handlers (platformAccessory.ts)\<close>

text \<open>
  A handler object: the accessory it serves and the zone id it sends requests for (the
  field \<open>zoneId\<close>, called \<open>persistentZoneId\<close> in the group-aware handlers).
\<close>

record CasaTunesPlatformAccessory =
  this_accessory :: PlatformAccessory
  this_zoneId :: string

text \<open>The single-zone JSON: \<open>ZoneGroupInfo\<close> is absent unless the zone is shared.\<close>

record groupMember =
  zoneId :: string

record zoneState =
  Power :: jsValue
  Volume :: jsValue
  Shared :: jsValue
  ZoneGroupInfo :: "groupMember list option"

definition setOn ::
  "CasaTunesPlatformAccessory \<Rightarrow> jsValue \<Rightarrow> 'a fetched \<Rightarrow> platform \<Rightarrow> platform \<times> outcome" where
  "setOn this val response p =
     (if includes_js (casaTunesUri p) ''undefined'' then
        (emit [Log LvError [uriError]] p, Returned)
      else
        let uri = casaTunesUri p @ ''/zones/'' @ this_zoneId this @ ''?Power='' @ String_js val;
            p1 = emit [Fetch uri] p in
        case response of
          Rejected \<Rightarrow> (p1, Threw FetchError)
        | _ \<Rightarrow>
            (emit [Log LvDebug [''Set '' @ displayName (this_accessory this) @
                                 '' Characteristic On ->'', String_js val],
                   CallbackSet] p1, Returned))"

definition getOn ::
  "CasaTunesPlatformAccessory \<Rightarrow> zoneState fetched \<Rightarrow> platform \<Rightarrow> platform \<times> outcome" where
  "getOn this response p =
     (if includes_js (casaTunesUri p) ''undefined'' then
        (emit [Log LvError [uriError]] p, Returned)
      else
        let uri = casaTunesUri p @ ''/zones/'' @ this_zoneId this;
            p1 = emit [Fetch uri] p in
        case response of
          Rejected \<Rightarrow> (p1, Threw FetchError)
        | NotJson \<Rightarrow> (p1, Threw JsonError)
        | Json info \<Rightarrow>
            let isOn = Power info in
            (emit [Log LvDebug [''Get '' @ displayName (this_accessory this) @
                                 '' Characteristic On ->'', String_js isOn],
                   CallbackGet isOn] p1, Returned))"

definition setVolume ::
  "CasaTunesPlatformAccessory \<Rightarrow> jsValue \<Rightarrow> 'a fetched \<Rightarrow> platform \<Rightarrow> platform \<times> outcome" where
  "setVolume this val response p =
     (if includes_js (casaTunesUri p) ''undefined'' then
        (emit [Log LvError [uriError]] p, Returned)
      else
        let uri = casaTunesUri p @ ''/zones/'' @ this_zoneId this @ ''?Volume='' @ String_js val;
            p1 = emit [Fetch uri] p in
        case response of
          Rejected \<Rightarrow> (p1, Threw FetchError)
        | _ \<Rightarrow>
            (emit [Log LvDebug [''Set '' @ displayName (this_accessory this) @
                                 '' Characteristic Volume ->'', String_js val],
                   CallbackSet] p1, Returned))"

definition getVolume ::
  "CasaTunesPlatformAccessory \<Rightarrow> zoneState fetched \<Rightarrow> platform \<Rightarrow> platform \<times> outcome" where
  "getVolume this response p =
     (if includes_js (casaTunesUri p) ''undefined'' then
        (emit [Log LvError [uriError]] p, Returned)
      else
        let uri = casaTunesUri p @ ''/zones/'' @ this_zoneId this;
            p1 = emit [Fetch uri] p in
        case response of
          Rejected \<Rightarrow> (p1, Threw FetchError)
        | NotJson \<Rightarrow> (p1, Threw JsonError)
        | Json info \<Rightarrow>
            let volume = Volume info in
            (emit [Log LvDebug [''Get '' @ displayName (this_accessory this) @
                                 '' Characteristic Volume ->'', String_js volume],
                   CallbackGet volume] p1, Returned))"

section \<open>The group-aware handlers (second half of platform.ts)\<close>

text \<open>
  The later revision of the handlers reads the platform's zone cache through
  \<open>getZonesArray()\<close> and its accessories through \<open>getAccessories()\<close>, and imports
  the type \<open>zoneInfo\<close> with the fields \<open>ZoneId\<close> and \<open>UUID\<close>. None of the three is
  declared in the source files, so the zone cache is the parameter \<open>zones\<close>, with the
  two fields the handlers read, and \<open>getAccessories()\<close> is the field \<open>accessories\<close>.
\<close>

record zoneInfo2 =
  ZoneId :: string
  zoneInfo_UUID :: string

text \<open>
  \<open>accessory?.getService(Lightbulb)?.setCharacteristic(c, value)\<close> is a call into the
  host, recorded as the event \<open>setCharacteristic\<close>; every accessory the platform holds
  was given a Lightbulb service by the constructor. What the host does with the call is
  not unfolded here: \<open>Service.setCharacteristic\<close> sets the value through the
  characteristic's \<open>'set'\<close> event, for which the constructor bound \<open>setOn\<close> and
  \<open>setVolume\<close>, so the member's own SET handler runs and sends a request for the
  member's zone.
\<close>

text \<open>
  One round of the loop over \<open>zone.ZoneGroupInfo\<close>. The callback of the second \<open>find\<close>
  reads \<open>info.UUID\<close>: with \<open>info\<close> undefined it throws as soon as it is called, that
  is unless there is no accessory at all. The debug line reads \<open>accessory.displayName\<close>
  with no guard. \<open>label\<close> is the text of that line around the display name.
\<close>

definition reflectMember ::
  "characteristic \<Rightarrow> string \<times> string \<Rightarrow> jsValue \<Rightarrow> zoneInfo2 list \<Rightarrow> groupMember \<Rightarrow>
   platform \<Rightarrow> platform \<times> outcome" where
  "reflectMember c label val zones member p =
     (let info = find (\<lambda>zoneInfo. ZoneId zoneInfo = zoneId member) zones in
      case (case info of
              Some i \<Rightarrow> Inr (find (\<lambda>acc. UUID acc = zoneInfo_UUID i) (accessories p))
            | None \<Rightarrow> if accessories p = [] then Inr None else Inl TypeError) of
        Inl e \<Rightarrow> (p, Threw e)
      | Inr None \<Rightarrow> (p, Threw TypeError)
      | Inr (Some accessory) \<Rightarrow>
          (emit [setCharacteristic accessory c val,
                 Log LvDebug [fst label @ displayName accessory @ snd label,
                              String_js val]] p, Returned))"

fun reflectGroup ::
  "characteristic \<Rightarrow> string \<times> string \<Rightarrow> jsValue \<Rightarrow> zoneInfo2 list \<Rightarrow> groupMember list \<Rightarrow>
   platform \<Rightarrow> platform \<times> outcome" where
  "reflectGroup c label val zones [] p = (p, Returned)"
| "reflectGroup c label val zones (member # members) p =
     (case reflectMember c label val zones member p of
        (p1, Threw e) \<Rightarrow> (p1, Threw e)
      | (p1, Returned) \<Rightarrow> reflectGroup c label val zones members p1)"

text \<open>What follows \<open>await response.json()\<close> in both SET handlers.\<close>

definition propagate ::
  "characteristic \<Rightarrow> string \<times> string \<Rightarrow> CasaTunesPlatformAccessory \<Rightarrow> jsValue \<Rightarrow>
   zoneInfo2 list \<Rightarrow> zoneState \<Rightarrow> platform \<Rightarrow> platform \<times> outcome" where
  "propagate c label this val zones zone p =
     (case (if includes_js (String_js (Shared zone)) ''true'' then
              (case ZoneGroupInfo zone of
                 None \<Rightarrow> (p, Threw TypeError)
               | Some members \<Rightarrow> reflectGroup c label val zones members p)
            else (p, Returned)) of
        (p1, Threw e) \<Rightarrow> (p1, Threw e)
      | (p1, Returned) \<Rightarrow>
          (emit [Log LvDebug [fst label @ displayName (this_accessory this) @ snd label,
                              String_js val],
                 CallbackSet] p1, Returned))"

definition setOn_group ::
  "CasaTunesPlatformAccessory \<Rightarrow> zoneInfo2 list \<Rightarrow> jsValue \<Rightarrow> zoneState fetched \<Rightarrow>
   platform \<Rightarrow> platform \<times> outcome" where
  "setOn_group this zones val response p =
     (if includes_js (casaTunesUri p) ''undefined'' then
        (emit [Log LvError [''CasaTunesPlatformAccessory:setOn(): '' @ uriError]] p, Returned)
      else
        let uri = casaTunesUri p @ ''/zones/'' @ this_zoneId this @ ''?Power='' @ String_js val;
            p1 = emit [Fetch uri] p in
        case response of
          Rejected \<Rightarrow> (p1, Threw FetchError)
        | NotJson \<Rightarrow> (p1, Threw JsonError)
        | Json zone \<Rightarrow>
            propagate On (''CasaTunesPlatformAccessory:setOn(): Set '',
                          '' Characteristic On ->'') this val zones zone p1)"

definition setVolume_group ::
  "CasaTunesPlatformAccessory \<Rightarrow> zoneInfo2 list \<Rightarrow> jsValue \<Rightarrow> zoneState fetched \<Rightarrow>
   platform \<Rightarrow> platform \<times> outcome" where
  "setVolume_group this zones val response p =
     (if includes_js (casaTunesUri p) ''undefined'' then
        (emit [Log LvError [''CasaTunesPlatformAccessory:setVolume(): '' @ uriError]] p,
         Returned)
      else
        let uri = casaTunesUri p @ ''/zones/'' @ this_zoneId this @ ''?Volume='' @ String_js val;
            p1 = emit [Fetch uri] p in
        case response of
          Rejected \<Rightarrow> (p1, Threw FetchError)
        | NotJson \<Rightarrow> (p1, Threw JsonError)
        | Json zone \<Rightarrow>
            propagate Brightness (''CasaTunesPlatformAccessory:setVolume(): Set '',
                                  '' Characteristic Volume ->'') this val zones zone p1)"

definition getOn_group ::
  "CasaTunesPlatformAccessory \<Rightarrow> zoneState fetched \<Rightarrow> platform \<Rightarrow> platform \<times> outcome" where
  "getOn_group this response p =
     (if includes_js (casaTunesUri p) ''undefined'' then
        (emit [Log LvError [''CasaTunesPlatformAccessory:getOn(): '' @ uriError]] p, Returned)
      else
        let uri = casaTunesUri p @ ''/zones/'' @ this_zoneId this;
            p1 = emit [Fetch uri] p in
        case response of
          Rejected \<Rightarrow> (p1, Threw FetchError)
        | NotJson \<Rightarrow> (p1, Threw JsonError)
        | Json info \<Rightarrow>
            let isOn = Power info in
            (emit [Log LvDebug [''CasaTunesPlatformAccessory:getOn(): Get '' @
                                 displayName (this_accessory this) @ '' Characteristic On ->'',
                                 String_js isOn],
                   CallbackGet isOn] p1, Returned))"

definition getVolume_group ::
  "CasaTunesPlatformAccessory \<Rightarrow> zoneState fetched \<Rightarrow> platform \<Rightarrow> platform \<times> outcome" where
  "getVolume_group this response p =
     (if includes_js (casaTunesUri p) ''undefined'' then
        (emit [Log LvError [''CasaTunesPlatformAccessory:getVolume(): '' @ uriError]] p,
         Returned)
      else
        let uri = casaTunesUri p @ ''/zones/'' @ this_zoneId this;
            p1 = emit [Fetch uri] p in
        case response of
          Rejected \<Rightarrow> (p1, Threw FetchError)
        | NotJson \<Rightarrow> (p1, Threw JsonError)
        | Json info \<Rightarrow>
            let volume = Volume info in
            (emit [Log LvDebug [''CasaTunesPlatformAccessory:getVolume(): Get '' @
                                 displayName (this_accessory this) @
                                 '' Characteristic Volume ->'', String_js volume],
                   CallbackGet volume] p1, Returned))"

section \<open>Reading a trace\<close>

text \<open>The events a run added to the trace.\<close>

definition performed :: "(platform \<Rightarrow> platform \<times> outcome) \<Rightarrow> platform \<Rightarrow> event list" where
  "performed run p = drop (length (trace p)) (trace (fst (run p)))"

text \<open>
  The classification a pass of \<open>discoverDevices\<close> makes, read off its calls: the zones
  it registered a new accessory for, the accessories it restored with the zone id each
  was bound to, and the accessories it unregistered.
\<close>

fun toCreate :: "event list \<Rightarrow> zoneInfo list" where
  "toCreate [] = []"
| "toCreate (registerPlatformAccessories a # es) = context_device a # toCreate es"
| "toCreate (_ # es) = toCreate es"

fun registered :: "event list \<Rightarrow> PlatformAccessory list" where
  "registered [] = []"
| "registered (registerPlatformAccessories a # es) = a # registered es"
| "registered (_ # es) = registered es"

fun toKeep :: "event list \<Rightarrow> (PlatformAccessory \<times> string) list" where
  "toKeep [] = []"
| "toKeep (SetZoneId a zid # es) = (a, zid) # toKeep es"
| "toKeep (_ # es) = toKeep es"

fun toRemove :: "event list \<Rightarrow> PlatformAccessory list" where
  "toRemove [] = []"
| "toRemove (unregisterPlatformAccessories a # es) = a # toRemove es"
| "toRemove (_ # es) = toRemove es"

fun fetches :: "event list \<Rightarrow> string list" where
  "fetches [] = []"
| "fetches (Fetch uri # es) = uri # fetches es"
| "fetches (_ # es) = fetches es"

text \<open>The \<open>setCharacteristic\<close> calls of a run, and its callbacks.\<close>

fun reflected :: "event list \<Rightarrow> (PlatformAccessory \<times> characteristic \<times> jsValue) list" where
  "reflected [] = []"
| "reflected (setCharacteristic a c v # es) = (a, c, v) # reflected es"
| "reflected (_ # es) = reflected es"

fun callbacks :: "event list \<Rightarrow> event list" where
  "callbacks [] = []"
| "callbacks (CallbackSet # es) = CallbackSet # callbacks es"
| "callbacks (CallbackGet v # es) = CallbackGet v # callbacks es"
| "callbacks (_ # es) = callbacks es"

text \<open>
  The host registry after a pass, as the spec's interface section describes it (create and
  remove are keyed by the uuid): a registered accessory is added, every accessory with the
  uuid of an unregistered one is dropped. The next start hands this list back to the
  platform through \<open>configureAccessory\<close>.
\<close>

fun applyOutput :: "event list \<Rightarrow> PlatformAccessory list \<Rightarrow> PlatformAccessory list" where
  "applyOutput [] A = A"
| "applyOutput (registerPlatformAccessories a # es) A = applyOutput es (A @ [a])"
| "applyOutput (unregisterPlatformAccessories a # es) A =
     applyOutput es (filter (\<lambda>b. UUID b \<noteq> UUID a) A)"
| "applyOutput (_ # es) A = applyOutput es A"

text \<open>The member's accessory, as the handlers resolve it.\<close>

definition resolve :: "zoneInfo2 list \<Rightarrow> PlatformAccessory list \<Rightarrow> groupMember \<Rightarrow> PlatformAccessory option" where
  "resolve zones accs member =
     (case find (\<lambda>zoneInfo. ZoneId zoneInfo = zoneId member) zones of
        None \<Rightarrow> None
      | Some i \<Rightarrow> find (\<lambda>acc. UUID acc = zoneInfo_UUID i) accs)"

section \<open>Concrete platforms, zones and replies\<close>

text \<open>
  The inputs of the closed runs below: a configured platform with nothing cached, a
  stand-in for the host's uuid generator, three zones, and the replies of the service.
\<close>

definition platform0 :: platform where
  "platform0 =
     \<lparr>platformInfo = \<lparr>Manufacturer = [], Model = [], SoftwareRevision = []\<rparr>,
      accessories = [], casaTunesUri = ''http://casaserver:8735/api/v1'',
      zonesArray = [], trace = []\<rparr>"

definition uuid0 :: "string \<Rightarrow> string" where
  "uuid0 zid = ''uuid-'' @ zid"

definition kitchen :: zoneInfo where "kitchen = \<lparr>Name = ''Kitchen'', ID = ''z2''\<rparr>"

definition patio :: zoneInfo where "patio = \<lparr>Name = ''Patio'', ID = ''z3''\<rparr>"

definition attic :: zoneInfo where "attic = \<lparr>Name = ''Attic'', ID = ''z9''\<rparr>"

definition restored :: platform where
  "restored = platform0\<lparr>accessories := [newAccessory uuid0 kitchen, newAccessory uuid0 attic]\<rparr>"

definition restarted :: platform where
  "restarted = platform0\<lparr>accessories := [newAccessory uuid0 kitchen, newAccessory uuid0 patio]\<rparr>"

definition fresh :: "zoneJson list fetched" where
  "fresh = Json [\<lparr>json_Name = ''Kitchen'', PersistentZoneID = ''z2''\<rparr>,
                 \<lparr>json_Name = ''Patio'', PersistentZoneID = ''z3''\<rparr>]"

definition unconfigured :: platform where
  "unconfigured = platform0\<lparr>casaTunesUri := ''undefined''\<rparr>"

definition speaker :: CasaTunesPlatformAccessory where
  "speaker = \<lparr>this_accessory = newAccessory uuid0 kitchen, this_zoneId = ''z2''\<rparr>"

definition zoneOn :: zoneState where
  "zoneOn = \<lparr>Power = JBool True, Volume = JNum 40, Shared = JBool False, ZoneGroupInfo = None\<rparr>"

definition groupReply :: zoneState where
  "groupReply =
     \<lparr>Power = JBool True, Volume = JNum 40, Shared = JStr ''true'',
      ZoneGroupInfo = Some [\<lparr>zoneId = ''z9''\<rparr>, \<lparr>zoneId = ''z2''\<rparr>]\<rparr>"

definition paired :: platform where
  "paired = platform0\<lparr>accessories := [newAccessory uuid0 kitchen]\<rparr>"

definition cache :: "zoneInfo2 list" where
  "cache = [\<lparr>ZoneId = ''z2'', zoneInfo_UUID = ''uuid-z2''\<rparr>]"



definition swappedReply :: zoneState where
  "swappedReply =
     \<lparr>Power = JBool True, Volume = JNum 40, Shared = JStr ''true'',
      ZoneGroupInfo = Some [\<lparr>zoneId = ''z2''\<rparr>, \<lparr>zoneId = ''z9''\<rparr>]\<rparr>"

section \<open>Properties\<close>

subsection \<open>Facts about the trace and the helpers\<close>

lemma emit_simps:
  "trace (emit es p) = trace p @ es"
  "zonesArray (emit es p) = zonesArray p"
  "accessories (emit es p) = accessories p"
  "casaTunesUri (emit es p) = casaTunesUri p"
  "platformInfo (emit es p) = platformInfo p"
  by (simp_all add: emit_def)

lemma emit_trace: "emit es p = p\<lparr>trace := trace p @ es\<rparr>"
  by (simp add: emit_def)

lemma includes_js_char: "includes_js s [c] \<longleftrightarrow> c \<in> set s"
  by (induction s) auto

lemma includes_js_iff: "includes_js s pat \<longleftrightarrow> (\<exists>a b. s = a @ pat @ b)"
proof (induction s)
  case Nil
  then show ?case by auto
next
  case (Cons c cs)
  show ?case
  proof
    assume "includes_js (c # cs) pat"
    then consider "prefix pat (c # cs)" | "includes_js cs pat" by auto
    then show "\<exists>a b. c # cs = a @ pat @ b"
    proof cases
      case 1
      then obtain b where "c # cs = pat @ b" by (auto simp: prefix_def)
      then have "c # cs = [] @ pat @ b" by simp
      then show ?thesis by blast
    next
      case 2
      then obtain a b where "cs = a @ pat @ b" using Cons.IH by auto
      then have "c # cs = (c # a) @ pat @ b" by simp
      then show ?thesis by blast
    qed
  next
    assume "\<exists>a b. c # cs = a @ pat @ b"
    then obtain a b where ab: "c # cs = a @ pat @ b" by auto
    show "includes_js (c # cs) pat"
    proof (cases a)
      case Nil
      then have "prefix pat (c # cs)" using ab by (auto simp: prefix_def)
      then show ?thesis by simp
    next
      case (Cons x a')
      then have "cs = a' @ pat @ b" using ab by simp
      then show ?thesis using Cons.IH by auto
    qed
  qed
qed

lemma substring_to_end: "substring a (length s) s = drop a s"
  by (simp add: substring_def Let_def min_def)

lemma toCreate_append: "toCreate (xs @ ys) = toCreate xs @ toCreate ys"
  by (induction xs rule: toCreate.induct) simp_all

lemma registered_append: "registered (xs @ ys) = registered xs @ registered ys"
  by (induction xs rule: registered.induct) simp_all

lemma toKeep_append: "toKeep (xs @ ys) = toKeep xs @ toKeep ys"
  by (induction xs rule: toKeep.induct) simp_all

lemma toRemove_append: "toRemove (xs @ ys) = toRemove xs @ toRemove ys"
  by (induction xs rule: toRemove.induct) simp_all

lemma fetches_append: "fetches (xs @ ys) = fetches xs @ fetches ys"
  by (induction xs rule: fetches.induct) simp_all

lemma callbacks_append: "callbacks (xs @ ys) = callbacks xs @ callbacks ys"
  by (induction xs rule: callbacks.induct) simp_all

lemmas proj_append = toCreate_append registered_append toKeep_append toRemove_append
  fetches_append callbacks_append

lemma toCreate_registered: "toCreate es = map context_device (registered es)"
  by (induction es rule: registered.induct) simp_all

lemma newAccessory_simps:
  "context_device (newAccessory g z) = z"
  "UUID (newAccessory g z) = g (ID z)"
  by (simp_all add: newAccessory_def)

lemma find_None_image: "(find (\<lambda>a. f a = k) xs = None) = (k \<notin> f ` set xs)"
  by (auto simp: find_None_iff)

lemma find_None_image': "(find (\<lambda>a. k = f a) xs = None) = (k \<notin> f ` set xs)"
  by (auto simp: find_None_iff)

lemmas scenario_defs = uuid0_def kitchen_def patio_def attic_def restored_def restarted_def
  fresh_def platform0_def newAccessory_def

lemmas run_defs = discoverDevices_def fetchZones_def performed_def emit_def assignAt_def Let_def

lemmas group_defs = setOn_group_def setVolume_group_def propagate_def reflectMember_def
  resolve_def

subsection \<open>fetchZones\<close>

lemma storeZones_zonesArray:
  "count \<le> length (zonesArray p) \<Longrightarrow>
   zonesArray (storeZones zones count p) =
     take count (zonesArray p) @
     map (\<lambda>z. \<lparr>Name = json_Name z, ID = PersistentZoneID z\<rparr>)
       (filter (\<lambda>z. CHR ''@'' \<notin> set (PersistentZoneID z)) zones) @
     drop (count + length (filter (\<lambda>z. CHR ''@'' \<notin> set (PersistentZoneID z)) zones))
       (zonesArray p)"
proof (induction zones arbitrary: count p)
  case Nil
  then show ?case by simp
next
  case (Cons z zones)
  show ?case
  proof (cases "CHR ''@'' \<in> set (PersistentZoneID z)")
    case True
    then show ?thesis using Cons by (simp add: includes_js_char)
  next
    case False
    let ?v = "\<lparr>Name = json_Name z, ID = PersistentZoneID z\<rparr>"
    let ?xs = "zonesArray p"
    have len: "Suc count \<le> length (assignAt ?xs count ?v)"
      using Cons.prems by (simp add: assignAt_def)
    have tk: "take (Suc count) (assignAt ?xs count ?v) = take count ?xs @ [?v]"
      using Cons.prems by (auto simp: assignAt_def take_Suc_conv_app_nth upd_conv_take_nth_drop)
    have dr: "\<And>n. drop (Suc count + n) (assignAt ?xs count ?v) = drop (Suc count + n) ?xs"
      using Cons.prems by (auto simp: assignAt_def)
    show ?thesis
      using False Cons.IH[of "Suc count" "(emit [Log LvDebug [''Found Zone: name = '' @ json_Name z @
                                     '', id = '' @ PersistentZoneID z]] p)\<lparr>zonesArray := assignAt ?xs count ?v\<rparr>"] len tk dr
      by (simp add: includes_js_char emit_simps Let_def)
  qed
qed

lemma storeZones_frame:
  "accessories (storeZones zones count p) = accessories p"
  "casaTunesUri (storeZones zones count p) = casaTunesUri p"
  "platformInfo (storeZones zones count p) = platformInfo p"
  by (induction zones arbitrary: count p) (simp_all add: emit_simps Let_def)

lemma storeZones_count:
  "count \<le> length (zonesArray p) \<Longrightarrow>
   count + length (filter (\<lambda>z. CHR ''@'' \<notin> set (PersistentZoneID z)) zones)
     \<le> length (zonesArray (storeZones zones count p))"
  by (simp add: storeZones_zonesArray)

lemma storeZones_events:
  "\<exists>es. trace (storeZones zones count p) = trace p @ es \<and>
        registered es = [] \<and> toKeep es = [] \<and> toRemove es = [] \<and>
        fetches es = [] \<and> callbacks es = []"
proof (induction zones arbitrary: count p)
  case Nil
  then show ?case by simp
next
  case (Cons z zones)
  show ?case
  proof (cases "includes_js (PersistentZoneID z) ''@''")
    case True
    then show ?thesis using Cons.IH by simp
  next
    case False
    let ?e = "Log LvDebug [''Found Zone: name = '' @ json_Name z @
                                     '', id = '' @ PersistentZoneID z]"
    let ?p2 = "(emit [?e] p)\<lparr>zonesArray :=
                  assignAt (zonesArray (emit [?e] p)) count
                    \<lparr>Name = json_Name z, ID = PersistentZoneID z\<rparr>\<rparr>"
    obtain es where es: "trace (storeZones zones (Suc count) ?p2) = trace ?p2 @ es"
      "registered es = []" "toKeep es = []" "toRemove es = []" "fetches es = []"
      "callbacks es = []"
      using Cons.IH[of "Suc count" ?p2] by blast
    have "trace (storeZones (z # zones) count p) = trace p @ (?e # es)"
      using False es(1) by (simp add: Let_def emit_simps)
    then show ?thesis using es(2-) by (intro exI[of _ "?e # es"]) simp
  qed
qed

lemma fetchZones_frame:
  "accessories (fst (fetchZones r p)) = accessories p"
  "casaTunesUri (fst (fetchZones r p)) = casaTunesUri p"
  "platformInfo (fst (fetchZones r p)) = platformInfo p"
  by (simp_all add: fetchZones_def emit_simps storeZones_frame Let_def split: fetched.splits)

lemma fetchZones_events:
  "\<exists>es. trace (fst (fetchZones r p)) = trace p @ es \<and>
        registered es = [] \<and> toKeep es = [] \<and> toRemove es = []"
proof (cases "includes_js (casaTunesUri p) ''undefined''")
  case True
  then show ?thesis by (simp add: fetchZones_def emit_simps)
next
  case False
  let ?f = "Fetch (casaTunesUri p @ ''/zones'')"
  show ?thesis
  proof (cases r)
    case (Json zones)
    obtain es where es: "trace (storeZones zones 0 (emit [?f] p)) = trace (emit [?f] p) @ es"
      "registered es = []" "toKeep es = []" "toRemove es = []"
      using storeZones_events[of zones 0 "emit [?f] p"] by blast
    have "trace (fst (fetchZones r p)) = trace p @ (?f # es)"
      using False Json es(1) by (simp add: fetchZones_def emit_simps)
    then show ?thesis using es(2-) by (intro exI[of _ "?f # es"]) simp
  qed (use False in \<open>simp_all add: fetchZones_def emit_simps\<close>)
qed


text \<open>
  Claim C3. With a configured URI, \<open>fetchZones\<close> stores, from slot 0 of the zone
  cache onwards and in the order of the service's reply, exactly the entries whose
  persistent zone id holds no \<open>@\<close>: every entry with an \<open>@\<close> is left out, every other
  entry is kept, and the kept entries keep their relative order. (Slots of the cache
  beyond the stored entries are not touched; on the platform's initial, empty cache
  there are none.)
\<close>

theorem fetchZones_filters_airplay:
  "\<not> includes_js (casaTunesUri p) ''undefined'' \<Longrightarrow>
   zonesArray (fst (fetchZones (Json zones) p)) =
     map (\<lambda>z. \<lparr>Name = json_Name z, ID = PersistentZoneID z\<rparr>)
       (filter (\<lambda>z. CHR ''@'' \<notin> set (PersistentZoneID z)) zones) @
     drop (length (filter (\<lambda>z. CHR ''@'' \<notin> set (PersistentZoneID z)) zones))
       (zonesArray p)"
  by (simp add: fetchZones_def storeZones_zonesArray emit_simps)

theorem fetchZones_filters_airplay_witness:
  "\<not> includes_js (casaTunesUri platform0) ''undefined'' \<and>
   zonesArray (fst (fetchZones
      (Json [\<lparr>json_Name = ''Air'', PersistentZoneID = ''z1@air''\<rparr>,
             \<lparr>json_Name = ''Kitchen'', PersistentZoneID = ''z2''\<rparr>,
             \<lparr>json_Name = ''Patio'', PersistentZoneID = ''z3''\<rparr>]) platform0)) =
     [\<lparr>Name = ''Kitchen'', ID = ''z2''\<rparr>, \<lparr>Name = ''Patio'', ID = ''z3''\<rparr>]"
  using fetchZones_filters_airplay [of platform0
      "[\<lparr>json_Name = ''Air'', PersistentZoneID = ''z1@air''\<rparr>,
        \<lparr>json_Name = ''Kitchen'', PersistentZoneID = ''z2''\<rparr>,
        \<lparr>json_Name = ''Patio'', PersistentZoneID = ''z3''\<rparr>]"]
  by (simp add: platform0_def)

text \<open>
  \<open>fetchZones\<close> writes over the first slots and never shortens the array, so a second
  fetch on the same platform object, which no launch performs, would leave the slots
  beyond its own entries as they were.
\<close>

lemma fetchZones_twice_on_one_platform:
  "zonesArray (fst (fetchZones (Json [\<lparr>json_Name = ''Den'', PersistentZoneID = ''z5''\<rparr>])
     (fst (fetchZones
        (Json [\<lparr>json_Name = ''Kitchen'', PersistentZoneID = ''z2''\<rparr>,
               \<lparr>json_Name = ''Patio'', PersistentZoneID = ''z3''\<rparr>]) platform0)))) =
   [\<lparr>Name = ''Den'', ID = ''z5''\<rparr>, \<lparr>Name = ''Patio'', ID = ''z3''\<rparr>]"
  by (simp add: fetchZones_def platform0_def emit_def assignAt_def Let_def)

subsection \<open>fetchPlatformInfo\<close>

lemma fetchPlatformInfo_model:
  "\<not> includes_js (casaTunesUri p) ''undefined'' \<Longrightarrow>
   Model (platformInfo (fst (fetchPlatformInfo
     (Json \<lparr>AppName = a, CasaTunesVersion = v, MatrixInfo = \<lparr>Title = t\<rparr> # ms\<rparr>) p))) =
   (if includes_js t ''Matrix: '' then drop 8 t else t)"
  by (simp add: fetchPlatformInfo_def emit_simps matrixString_def substring_to_end Let_def
      eval_nat_numeral)

text \<open>
  Claim C6. The model string should lose \<open>"Matrix: "\<close> only when it starts with it.
  The code tests \<open>includes\<close> and then cuts the first eight characters, whatever they
  are: the title \<open>"My Matrix: A"\<close> becomes \<open>"x: A"\<close>.
\<close>

theorem fetchPlatformInfo_strips_inner_match:
  "Model (platformInfo (fst (fetchPlatformInfo
     (Json \<lparr>AppName = ''CasaTunes'', CasaTunesVersion = ''9'',
            MatrixInfo = [\<lparr>Title = ''My Matrix: A''\<rparr>]\<rparr>) platform0))) = ''x: A''"
  by (simp add: fetchPlatformInfo_def platform0_def emit_def matrixString_def substring_def Let_def)

subsection \<open>discoverDevices\<close>

lemma registerLoop_frame:
  "accessories (registerLoop g zs p) = accessories p"
  "zonesArray (registerLoop g zs p) = zonesArray p"
  "casaTunesUri (registerLoop g zs p) = casaTunesUri p"
  "platformInfo (registerLoop g zs p) = platformInfo p"
  by (induction zs arbitrary: p; simp add: emit_simps Let_def split: option.splits)+

lemma unregisterLoop_frame:
  "accessories (unregisterLoop g as p) = accessories p"
  "zonesArray (unregisterLoop g as p) = zonesArray p"
  "casaTunesUri (unregisterLoop g as p) = casaTunesUri p"
  "platformInfo (unregisterLoop g as p) = platformInfo p"
  by (induction as arbitrary: p; simp add: emit_simps split: option.splits)+

lemma registerLoop_events:
  "\<exists>es. trace (registerLoop g zs p) = trace p @ es \<and>
        registered es =
          map (newAccessory g)
            (filter (\<lambda>z. find (\<lambda>a. UUID a = g (ID z)) (accessories p) = None) zs) \<and>
        toKeep es =
          List.map_filter
            (\<lambda>z. map_option (\<lambda>a. (a, ID z)) (find (\<lambda>a. UUID a = g (ID z)) (accessories p))) zs \<and>
        toRemove es = [] \<and> fetches es = [] \<and> callbacks es = []"
proof (induction zs arbitrary: p)
  case Nil
  then show ?case by (simp add: List.map_filter_simps)
next
  case (Cons z zs)
  show ?case
  proof (cases "find (\<lambda>a. UUID a = g (ID z)) (accessories p)")
    case None
    let ?step = "[Log LvInfo [''Adding new accessory:'', Name z],
                   Construct (newAccessory g z),
                   registerPlatformAccessories (newAccessory g z)]"
    obtain es where es: "trace (registerLoop g zs (emit ?step p)) = trace (emit ?step p) @ es"
      "registered es =
          map (newAccessory g)
            (filter (\<lambda>z. find (\<lambda>a. UUID a = g (ID z)) (accessories p) = None) zs)"
      "toKeep es =
          List.map_filter
            (\<lambda>z. map_option (\<lambda>a. (a, ID z)) (find (\<lambda>a. UUID a = g (ID z)) (accessories p))) zs"
      "toRemove es = []" "fetches es = []" "callbacks es = []"
      using Cons.IH[of "emit ?step p"] by (auto simp: emit_simps)
    have "trace (registerLoop g (z # zs) p) = trace p @ (?step @ es)"
      using None es(1) by (simp add: Let_def emit_simps)
    then show ?thesis using es(2-) None
      by (intro exI[of _ "?step @ es"]) (simp add: List.map_filter_simps)
  next
    case (Some a)
    let ?step = "[Log LvInfo [''Restoring existing accessory from cache:'', displayName a],
                   Construct a,
                   SetZoneId a (ID z),
                   Log LvDebug [''Set '' @ displayName a @ '' zone ID ->'', ID z],
                   updatePlatformAccessories a]"
    obtain es where es: "trace (registerLoop g zs (emit ?step p)) = trace (emit ?step p) @ es"
      "registered es =
          map (newAccessory g)
            (filter (\<lambda>z. find (\<lambda>a. UUID a = g (ID z)) (accessories p) = None) zs)"
      "toKeep es =
          List.map_filter
            (\<lambda>z. map_option (\<lambda>a. (a, ID z)) (find (\<lambda>a. UUID a = g (ID z)) (accessories p))) zs"
      "toRemove es = []" "fetches es = []" "callbacks es = []"
      using Cons.IH[of "emit ?step p"] by (auto simp: emit_simps)
    have "trace (registerLoop g (z # zs) p) = trace p @ (?step @ es)"
      using Some es(1) by (simp add: Let_def emit_simps)
    then show ?thesis using es(2-) Some
      by (intro exI[of _ "?step @ es"]) (simp add: List.map_filter_simps)
  qed
qed

lemma unregisterLoop_events:
  "\<exists>es. trace (unregisterLoop g as p) = trace p @ es \<and>
        registered es = [] \<and> toKeep es = [] \<and>
        toRemove es = filter (\<lambda>a. find (\<lambda>z. g (ID z) = UUID a) (zonesArray p) = None) as \<and>
        fetches es = [] \<and> callbacks es = []"
proof (induction as arbitrary: p)
  case Nil
  then show ?case by simp
next
  case (Cons a as)
  show ?case
  proof (cases "find (\<lambda>z. g (ID z) = UUID a) (zonesArray p)")
    case None
    let ?step = "[unregisterPlatformAccessories a,
                  Log LvInfo [''Removing existing accessory from cache:'', displayName a]]"
    obtain es where es: "trace (unregisterLoop g as (emit ?step p)) = trace (emit ?step p) @ es"
      "registered es = []" "toKeep es = []"
      "toRemove es = filter (\<lambda>a. find (\<lambda>z. g (ID z) = UUID a) (zonesArray p) = None) as"
      "fetches es = []" "callbacks es = []"
      using Cons.IH[of "emit ?step p"] by (auto simp: emit_simps)
    have "trace (unregisterLoop g (a # as) p) = trace p @ (?step @ es)"
      using None es(1) by (simp add: emit_simps)
    then show ?thesis using es(2-) None
      by (intro exI[of _ "?step @ es"]) simp
  next
    case (Some z)
    then show ?thesis using Cons.IH[of p] by simp
  qed
qed

lemma discoverDevices_frame:
  "accessories (fst (discoverDevices g r p)) = accessories p"
  "casaTunesUri (fst (discoverDevices g r p)) = casaTunesUri p"
  "zonesArray (fst (discoverDevices g r p)) = zonesArray (fst (fetchZones r p))"
  using fetchZones_frame[of r p]
  by (auto simp: discoverDevices_def registerLoop_frame unregisterLoop_frame Let_def
      split: prod.splits outcome.splits)

lemma discoverDevices_outcome:
  "snd (discoverDevices g r p) = snd (fetchZones r p)"
  by (auto simp: discoverDevices_def Let_def split: prod.splits outcome.splits)

lemma discoverDevices_pass:
  assumes "snd (discoverDevices g r p) = Returned"
  shows "\<exists>es0 es1 es2.
     performed (discoverDevices g r) p = es0 @ es1 @ es2 \<and>
     registered es0 = [] \<and> toKeep es0 = [] \<and> toRemove es0 = [] \<and>
     registered es1 =
       map (newAccessory g)
         (filter (\<lambda>z. find (\<lambda>a. UUID a = g (ID z)) (accessories p) = None)
            (zonesArray (fst (discoverDevices g r p)))) \<and>
     toKeep es1 =
       List.map_filter
         (\<lambda>z. map_option (\<lambda>a. (a, ID z)) (find (\<lambda>a. UUID a = g (ID z)) (accessories p)))
         (zonesArray (fst (discoverDevices g r p))) \<and>
     toRemove es1 = [] \<and>
     registered es2 = [] \<and> toKeep es2 = [] \<and>
     toRemove es2 =
       filter (\<lambda>a. find (\<lambda>z. g (ID z) = UUID a) (zonesArray (fst (discoverDevices g r p))) = None)
         (accessories p)"
proof -
  obtain p1 where p1: "fetchZones r p = (p1, Returned)"
    using assms discoverDevices_outcome[of g r p] by (metis prod.collapse)
  let ?p2 = "registerLoop g (zonesArray p1) p1"
  let ?p3 = "unregisterLoop g (accessories ?p2) ?p2"
  have dd: "discoverDevices g r p = (?p3, Returned)"
    using p1 by (simp add: discoverDevices_def Let_def)
  have A: "accessories p1 = accessories p"
    using fetchZones_frame(1)[of r p] p1 by simp
  have Z: "zonesArray (fst (discoverDevices g r p)) = zonesArray p1"
    using discoverDevices_frame(3)[of g r p] p1 by simp
  obtain es0 where es0: "trace p1 = trace p @ es0"
    "registered es0 = []" "toKeep es0 = []" "toRemove es0 = []"
    using fetchZones_events[of r p] p1 by auto
  obtain es1 where es1: "trace ?p2 = trace p1 @ es1"
    "registered es1 =
       map (newAccessory g)
         (filter (\<lambda>z. find (\<lambda>a. UUID a = g (ID z)) (accessories p1) = None) (zonesArray p1))"
    "toKeep es1 =
       List.map_filter
         (\<lambda>z. map_option (\<lambda>a. (a, ID z)) (find (\<lambda>a. UUID a = g (ID z)) (accessories p1)))
         (zonesArray p1)"
    "toRemove es1 = []"
    using registerLoop_events[of g "zonesArray p1" p1] by blast
  obtain es2 where es2: "trace ?p3 = trace ?p2 @ es2"
    "registered es2 = []" "toKeep es2 = []"
    "toRemove es2 =
       filter (\<lambda>a. find (\<lambda>z. g (ID z) = UUID a) (zonesArray ?p2) = None) (accessories ?p2)"
    using unregisterLoop_events[of g "accessories ?p2" ?p2] by blast
  have "performed (discoverDevices g r) p = es0 @ es1 @ es2"
    using dd es0(1) es1(1) es2(1) by (simp add: performed_def)
  then show ?thesis
    using es0(2-) es1(2-) es2(2-) A Z
    by (intro exI[of _ es0] exI[of _ es1] exI[of _ es2]) (simp add: registerLoop_frame)
qed

lemma discoverDevices_threw:
  assumes "snd (discoverDevices g r p) \<noteq> Returned"
  shows "registered (performed (discoverDevices g r) p) = [] \<and>
         toKeep (performed (discoverDevices g r) p) = [] \<and>
         toRemove (performed (discoverDevices g r) p) = []"
proof -
  obtain p1 e where p1: "fetchZones r p = (p1, Threw e)"
    using assms discoverDevices_outcome[of g r p] by (metis outcome.exhaust prod.collapse)
  then have dd: "discoverDevices g r p = (p1, Threw e)"
    by (simp add: discoverDevices_def)
  obtain es where "trace p1 = trace p @ es"
    "registered es = []" "toKeep es = []" "toRemove es = []"
    using fetchZones_events[of r p] p1 by auto
  then show ?thesis using dd by (simp add: performed_def)
qed

lemma discoverDevices_projections:
  assumes "snd (discoverDevices generate response p) = Returned"
  shows
   "toCreate (performed (discoverDevices generate response) p) =
      filter (\<lambda>z. generate (ID z) \<notin> UUID ` set (accessories p))
        (zonesArray (fst (discoverDevices generate response p))) \<and>
    registered (performed (discoverDevices generate response) p) =
      map (newAccessory generate) (toCreate (performed (discoverDevices generate response) p)) \<and>
    toKeep (performed (discoverDevices generate response) p) =
      List.map_filter
        (\<lambda>z. map_option (\<lambda>a. (a, ID z))
               (find (\<lambda>a. UUID a = generate (ID z)) (accessories p)))
        (zonesArray (fst (discoverDevices generate response p))) \<and>
    toRemove (performed (discoverDevices generate response) p) =
      filter (\<lambda>a. UUID a \<notin> (\<lambda>z. generate (ID z)) ` set
                (zonesArray (fst (discoverDevices generate response p))))
        (accessories p)"
proof -
  obtain es0 es1 es2 where
    "performed (discoverDevices generate response) p = es0 @ es1 @ es2"
    "registered es0 = []" "toKeep es0 = []" "toRemove es0 = []"
    "registered es1 =
       map (newAccessory generate)
         (filter (\<lambda>z. find (\<lambda>a. UUID a = generate (ID z)) (accessories p) = None)
            (zonesArray (fst (discoverDevices generate response p))))"
    "toKeep es1 =
       List.map_filter
         (\<lambda>z. map_option (\<lambda>a. (a, ID z))
                (find (\<lambda>a. UUID a = generate (ID z)) (accessories p)))
         (zonesArray (fst (discoverDevices generate response p)))"
    "toRemove es1 = []"
    "registered es2 = []" "toKeep es2 = []"
    "toRemove es2 =
       filter (\<lambda>a. find (\<lambda>z. generate (ID z) = UUID a)
                     (zonesArray (fst (discoverDevices generate response p))) = None)
         (accessories p)"
    using discoverDevices_pass[OF assms] by blast
  then show ?thesis
    by (simp add: proj_append toCreate_registered newAccessory_simps comp_def
        find_None_image find_None_image')
qed

lemma kept_zones:
  "map snd (List.map_filter
      (\<lambda>z. map_option (\<lambda>a. (a, k z)) (find (\<lambda>a. UUID a = g z) A)) Z) =
   map k (filter (\<lambda>z. g z \<in> UUID ` set A) Z)"
proof (induction Z)
  case Nil
  then show ?case by (simp add: List.map_filter_simps)
next
  case (Cons z Z)
  show ?case
  proof (cases "find (\<lambda>a. UUID a = g z) A")
    case None
    then have "g z \<notin> UUID ` set A" by (simp add: find_None_image)
    then show ?thesis using None Cons by (simp add: List.map_filter_simps)
  next
    case (Some a)
    then have "g z \<in> UUID ` set A" using find_None_image[of UUID "g z" A] by simp
    then show ?thesis using Some Cons by (simp add: List.map_filter_simps)
  qed
qed

text \<open>
  Claim C2. A pass of \<open>discoverDevices\<close> that completes classifies by the derived
  uuid, over the restored accessories and the zones now cached: a new accessory is
  registered for exactly the zones whose uuid no accessory has, in zone order; every
  other zone, and no zone else, restores the first accessory with its uuid and binds it
  to the zone's id; and exactly the accessories whose uuid no zone derives are
  unregistered.
\<close>

theorem discoverDevices_classifies:
  assumes "snd (discoverDevices generate response p) = Returned"
  shows
   "toCreate (performed (discoverDevices generate response) p) =
      filter (\<lambda>z. generate (ID z) \<notin> UUID ` set (accessories p))
        (zonesArray (fst (discoverDevices generate response p))) \<and>
    registered (performed (discoverDevices generate response) p) =
      map (newAccessory generate) (toCreate (performed (discoverDevices generate response) p)) \<and>
    toKeep (performed (discoverDevices generate response) p) =
      List.map_filter
        (\<lambda>z. map_option (\<lambda>a. (a, ID z))
               (find (\<lambda>a. UUID a = generate (ID z)) (accessories p)))
        (zonesArray (fst (discoverDevices generate response p))) \<and>
    map snd (toKeep (performed (discoverDevices generate response) p)) =
      map ID (filter (\<lambda>z. generate (ID z) \<in> UUID ` set (accessories p))
                (zonesArray (fst (discoverDevices generate response p)))) \<and>
    toRemove (performed (discoverDevices generate response) p) =
      filter (\<lambda>a. UUID a \<notin> (\<lambda>z. generate (ID z)) ` set
                (zonesArray (fst (discoverDevices generate response p))))
        (accessories p)"
  using discoverDevices_projections[OF assms]
    kept_zones[of ID "\<lambda>z. generate (ID z)" "accessories p"
      "zonesArray (fst (discoverDevices generate response p))"]
  by simp

theorem discoverDevices_classifies_witness:
  "snd (discoverDevices uuid0 fresh restored) = Returned \<and>
   toCreate (performed (discoverDevices uuid0 fresh) restored) = [patio] \<and>
   toKeep (performed (discoverDevices uuid0 fresh) restored) =
     [(newAccessory uuid0 kitchen, ''z2'')] \<and>
   toRemove (performed (discoverDevices uuid0 fresh) restored) = [newAccessory uuid0 attic]"
  using discoverDevices_classifies [of uuid0 fresh restored]
  by (simp add: scenario_defs run_defs List.map_filter_simps)

text \<open>
  Claim C8. In one pass of \<open>discoverDevices\<close>, the uuids of the accessories it
  registers and the uuids of the accessories it unregisters are disjoint.
\<close>

theorem created_removed_disjoint:
  "UUID ` set (registered (performed (discoverDevices generate response) p)) \<inter>
   UUID ` set (toRemove (performed (discoverDevices generate response) p)) = {}"
proof (cases "snd (discoverDevices generate response p) = Returned")
  case True
  show ?thesis
    using discoverDevices_projections[OF True]
    by (auto simp: newAccessory_simps)
next
  case False
  then show ?thesis using discoverDevices_threw[OF False] by simp
qed

theorem created_removed_disjoint_witness:
  "registered (performed (discoverDevices uuid0 fresh) restored) = [newAccessory uuid0 patio] \<and>
   toRemove (performed (discoverDevices uuid0 fresh) restored) = [newAccessory uuid0 attic] \<and>
   UUID ` set (registered (performed (discoverDevices uuid0 fresh) restored)) \<inter>
   UUID ` set (toRemove (performed (discoverDevices uuid0 fresh) restored)) = {}"
  using created_removed_disjoint [of uuid0 fresh restored]
  by (simp add: scenario_defs run_defs)

lemma applyOutput_append: "applyOutput (xs @ ys) A = applyOutput ys (applyOutput xs A)"
  by (induction xs A rule: applyOutput.induct) simp_all

lemma applyOutput_registers: "toRemove es = [] \<Longrightarrow> applyOutput es A = A @ registered es"
  by (induction es A rule: applyOutput.induct) simp_all

lemma applyOutput_unregisters:
  "registered es = [] \<Longrightarrow>
   applyOutput es A = filter (\<lambda>b. UUID b \<notin> UUID ` set (toRemove es)) A"
  by (induction es A rule: applyOutput.induct) (auto intro!: filter_cong)

lemma map_snd_map_filter:
  "\<forall>z\<in>set Z. f z \<noteq> None \<Longrightarrow>
   map snd (List.map_filter (\<lambda>z. map_option (\<lambda>a. (a, k z)) (f z)) Z) = map k Z"
  by (induction Z) (auto simp: List.map_filter_simps split: option.splits)

lemma applyOutput_pass:
  assumes "snd (discoverDevices g r p) = Returned"
  shows "applyOutput (performed (discoverDevices g r) p) (accessories p) =
     filter (\<lambda>b. UUID b \<in> (\<lambda>z. g (ID z)) ` set (zonesArray (fst (discoverDevices g r p))))
       (accessories p) @
     map (newAccessory g)
       (filter (\<lambda>z. g (ID z) \<notin> UUID ` set (accessories p))
          (zonesArray (fst (discoverDevices g r p))))"
proof -
  let ?A = "accessories p"
  let ?Z = "zonesArray (fst (discoverDevices g r p))"
  let ?C = "filter (\<lambda>z. find (\<lambda>a. UUID a = g (ID z)) ?A = None) ?Z"
  let ?R = "filter (\<lambda>a. find (\<lambda>z. g (ID z) = UUID a) ?Z = None) ?A"
  obtain es0 es1 es2 where es:
    "performed (discoverDevices g r) p = es0 @ es1 @ es2"
    "registered es0 = []" "toRemove es0 = []"
    "registered es1 = map (newAccessory g) ?C" "toRemove es1 = []"
    "registered es2 = []" "toRemove es2 = ?R"
    using discoverDevices_pass[OF assms] by blast
  have "applyOutput (es0 @ es1 @ es2) ?A =
        filter (\<lambda>b. UUID b \<notin> UUID ` set ?R) (?A @ map (newAccessory g) ?C)"
    using es(2-) by (simp add: applyOutput_append applyOutput_registers applyOutput_unregisters)
  moreover have "filter (\<lambda>b. UUID b \<notin> UUID ` set ?R) ?A =
                 filter (\<lambda>b. UUID b \<in> (\<lambda>z. g (ID z)) ` set ?Z) ?A"
  proof (rule filter_cong[OF refl])
    fix b assume b: "b \<in> set ?A"
    show "(UUID b \<notin> UUID ` set ?R) = (UUID b \<in> (\<lambda>z. g (ID z)) ` set ?Z)"
    proof
      assume "UUID b \<notin> UUID ` set ?R"
      then have "b \<notin> set ?R" by blast
      then show "UUID b \<in> (\<lambda>z. g (ID z)) ` set ?Z"
        using b by (force simp: find_None_iff image_iff)
    next
      assume "UUID b \<in> (\<lambda>z. g (ID z)) ` set ?Z"
      then show "UUID b \<notin> UUID ` set ?R"
        by (auto simp: find_None_iff)
    qed
  qed
  moreover have "filter (\<lambda>b. UUID b \<notin> UUID ` set ?R) (map (newAccessory g) ?C) =
                 map (newAccessory g) ?C"
    by (auto simp: filter_id_conv find_None_iff newAccessory_simps)
  ultimately show ?thesis
    using es(1) by (simp add: find_None_image)
qed

text \<open>
  Claim C7. Reconciliation is idempotent. Running a completed pass again on the same
  reply, in the state the first one left, classifies the same way. And a pass over the
  registry the first pass produced (its registrations added, its unregistrations
  removed), with the same zones, registers nothing, unregisters nothing and restores
  an accessory for every zone.
\<close>

theorem reconcile_idempotent:
  assumes "snd (discoverDevices generate response p) = Returned"
    and "accessories p' =
           applyOutput (performed (discoverDevices generate response) p) (accessories p)"
    and "snd (discoverDevices generate response p') = Returned"
    and "zonesArray (fst (discoverDevices generate response p')) =
         zonesArray (fst (discoverDevices generate response p))"
  shows
   "toCreate (performed (discoverDevices generate response)
                (fst (discoverDevices generate response p))) =
      toCreate (performed (discoverDevices generate response) p) \<and>
    toKeep (performed (discoverDevices generate response)
              (fst (discoverDevices generate response p))) =
      toKeep (performed (discoverDevices generate response) p) \<and>
    toRemove (performed (discoverDevices generate response)
                (fst (discoverDevices generate response p))) =
      toRemove (performed (discoverDevices generate response) p) \<and>
    toCreate (performed (discoverDevices generate response) p') = [] \<and>
    toRemove (performed (discoverDevices generate response) p') = [] \<and>
    map snd (toKeep (performed (discoverDevices generate response) p')) =
      map ID (zonesArray (fst (discoverDevices generate response p)))"
proof -
  let ?run = "discoverDevices generate response"
  let ?p1 = "fst (?run p)"
  let ?Z = "zonesArray ?p1"
  let ?A = "accessories p"
  txt \<open>Running again in the state the first pass left.\<close>
  have uri1: "casaTunesUri ?p1 = casaTunesUri p" and acc1: "accessories ?p1 = ?A"
    by (simp_all add: discoverDevices_frame)
  have ret1: "snd (?run ?p1) = Returned"
    using assms(1) uri1
    by (auto simp: discoverDevices_outcome fetchZones_def Let_def split: fetched.splits if_splits)
  have Z1: "zonesArray (fst (?run ?p1)) = ?Z"
  proof (cases "includes_js (casaTunesUri p) ''undefined''")
    case True
    then show ?thesis using uri1 by (simp add: discoverDevices_frame fetchZones_def emit_simps)
  next
    case False
    then obtain zones where r: "response = Json zones"
      using assms(1)
      by (cases response) (auto simp: discoverDevices_outcome fetchZones_def Let_def)
    let ?F = "map (\<lambda>z. \<lparr>Name = json_Name z, ID = PersistentZoneID z\<rparr>)
                (filter (\<lambda>z. CHR ''@'' \<notin> set (PersistentZoneID z)) zones)"
    have Z: "?Z = ?F @ drop (length ?F) (zonesArray p)"
      using False r
      by (simp add: discoverDevices_frame fetchZones_def storeZones_zonesArray emit_simps)
    have "zonesArray (fst (?run ?p1)) = zonesArray (fst (fetchZones response ?p1))"
      by (rule discoverDevices_frame(3))
    also have "\<dots> = ?F @ drop (length ?F) ?Z"
      using False uri1 unfolding r
      by (simp add: fetchZones_def storeZones_zonesArray emit_simps)
    finally show ?thesis using Z by simp
  qed
  have same: "toCreate (performed ?run ?p1) = toCreate (performed ?run p)"
    "toKeep (performed ?run ?p1) = toKeep (performed ?run p)"
    "toRemove (performed ?run ?p1) = toRemove (performed ?run p)"
    using discoverDevices_projections[OF ret1] discoverDevices_projections[OF assms(1)]
    by (simp_all add: Z1 acc1)
  txt \<open>Running on the registry the first pass produced.\<close>
  have A': "accessories p' =
      filter (\<lambda>b. UUID b \<in> (\<lambda>z. generate (ID z)) ` set ?Z) ?A @
      map (newAccessory generate) (filter (\<lambda>z. generate (ID z) \<notin> UUID ` set ?A) ?Z)"
    using assms(2) applyOutput_pass[OF assms(1)] by simp
  have covered: "generate (ID z) \<in> UUID ` set (accessories p')" if "z \<in> set ?Z" for z
  proof (cases "generate (ID z) \<in> UUID ` set ?A")
    case True
    then obtain a where "a \<in> set ?A" "UUID a = generate (ID z)" by auto
    then have "a \<in> set (accessories p')" using that A' by auto
    then show ?thesis using \<open>UUID a = generate (ID z)\<close> by force
  next
    case False
    then have "newAccessory generate z \<in> set (accessories p')" using that A' by auto
    then show ?thesis by (force simp: newAccessory_simps)
  qed
  have matched: "UUID b \<in> (\<lambda>z. generate (ID z)) ` set ?Z" if "b \<in> set (accessories p')" for b
    using that A' by (auto simp: newAccessory_simps)
  have found: "find (\<lambda>a. UUID a = generate (ID z)) (accessories p') \<noteq> None"
    if "z \<in> set ?Z" for z
    using covered[OF that] by (auto simp: find_None_iff)
  have next_pass:
    "toCreate (performed ?run p') = []"
    "toRemove (performed ?run p') = []"
    "map snd (toKeep (performed ?run p')) = map ID ?Z"
    using discoverDevices_projections[OF assms(3)] covered matched
      map_snd_map_filter[of ?Z "\<lambda>z. find (\<lambda>a. UUID a = generate (ID z)) (accessories p')" ID]
      found
    by (simp_all add: assms(4) filter_empty_conv)
  show ?thesis using same next_pass by simp
qed

theorem reconcile_idempotent_witness:
  "snd (discoverDevices uuid0 fresh restored) = Returned \<and>
   accessories restarted =
     applyOutput (performed (discoverDevices uuid0 fresh) restored) (accessories restored) \<and>
   snd (discoverDevices uuid0 fresh restarted) = Returned \<and>
   zonesArray (fst (discoverDevices uuid0 fresh restarted)) =
     zonesArray (fst (discoverDevices uuid0 fresh restored)) \<and>
   toCreate (performed (discoverDevices uuid0 fresh)
               (fst (discoverDevices uuid0 fresh restored))) = [patio] \<and>
   toCreate (performed (discoverDevices uuid0 fresh) restarted) = [] \<and>
   toRemove (performed (discoverDevices uuid0 fresh) restarted) = [] \<and>
   map snd (toKeep (performed (discoverDevices uuid0 fresh) restarted)) = [''z2'', ''z3'']"
  using reconcile_idempotent [of uuid0 fresh restored restarted]
  by (simp add: scenario_defs run_defs)

subsection \<open>A launch\<close>






subsection \<open>An unconfigured URI\<close>

text \<open>
  Claim C9. When the configured URI contains \<open>undefined\<close>, each of \<open>fetchZones\<close>,
  \<open>fetchPlatformInfo\<close> and the characteristic handlers (of both revisions) returns
  after logging the configuration error once: the trace gains that one line and no
  request, and nothing else of the platform changes.
\<close>

theorem undefined_uri_short_circuits:
  assumes "includes_js (casaTunesUri p) ''undefined''"
  shows
   "fetchZones zonesReply p = (p\<lparr>trace := trace p @ [Log LvError [uriError]]\<rparr>, Returned) \<and>
    fetchPlatformInfo infoReply p =
      (p\<lparr>trace := trace p @ [Log LvError [uriError]]\<rparr>, Returned) \<and>
    setOn this val reply p = (p\<lparr>trace := trace p @ [Log LvError [uriError]]\<rparr>, Returned) \<and>
    getOn this zoneReply p = (p\<lparr>trace := trace p @ [Log LvError [uriError]]\<rparr>, Returned) \<and>
    setVolume this val reply p =
      (p\<lparr>trace := trace p @ [Log LvError [uriError]]\<rparr>, Returned) \<and>
    getVolume this zoneReply p =
      (p\<lparr>trace := trace p @ [Log LvError [uriError]]\<rparr>, Returned) \<and>
    setOn_group this zones val zoneReply p =
      (p\<lparr>trace := trace p @
          [Log LvError [''CasaTunesPlatformAccessory:setOn(): '' @ uriError]]\<rparr>, Returned) \<and>
    getOn_group this zoneReply p =
      (p\<lparr>trace := trace p @
          [Log LvError [''CasaTunesPlatformAccessory:getOn(): '' @ uriError]]\<rparr>, Returned) \<and>
    setVolume_group this zones val zoneReply p =
      (p\<lparr>trace := trace p @
          [Log LvError [''CasaTunesPlatformAccessory:setVolume(): '' @ uriError]]\<rparr>, Returned) \<and>
    getVolume_group this zoneReply p =
      (p\<lparr>trace := trace p @
          [Log LvError [''CasaTunesPlatformAccessory:getVolume(): '' @ uriError]]\<rparr>, Returned)"
  using assms
  by (simp add: fetchZones_def fetchPlatformInfo_def setOn_def getOn_def setVolume_def
      getVolume_def setOn_group_def getOn_group_def setVolume_group_def getVolume_group_def
      emit_trace)

theorem undefined_uri_short_circuits_witness:
  "includes_js (casaTunesUri unconfigured) ''undefined'' \<and>
   fetchZones fresh unconfigured =
     (unconfigured\<lparr>trace := [Log LvError [uriError]]\<rparr>, Returned) \<and>
   setOn speaker (JBool True) (Json ()) unconfigured =
     (unconfigured\<lparr>trace := [Log LvError [uriError]]\<rparr>, Returned) \<and>
   fetches (trace (fst (setVolume_group speaker [] (JNum 40) NotJson unconfigured))) = []"
  using undefined_uri_short_circuits [where p = unconfigured and zonesReply = fresh
      and infoReply = NotJson and this = speaker and val = "JBool True" and reply = "Json ()"
      and zoneReply = NotJson and zones = "[]"]
    undefined_uri_short_circuits [where p = unconfigured and zonesReply = fresh
      and infoReply = NotJson and this = speaker and val = "JNum 40" and reply = "Json ()"
      and zoneReply = NotJson and zones = "[]"]
  by (simp add: unconfigured_def platform0_def)

text \<open>
  Claim C10. When the configured URI contains \<open>undefined\<close>, every characteristic
  handler returns without invoking its callback.
\<close>

theorem undefined_uri_no_callback:
  assumes "includes_js (casaTunesUri p) ''undefined''"
  shows
   "callbacks (performed (setOn this val reply) p) = [] \<and>
    snd (setOn this val reply p) = Returned \<and>
    callbacks (performed (getOn this zoneReply) p) = [] \<and>
    snd (getOn this zoneReply p) = Returned \<and>
    callbacks (performed (setVolume this val reply) p) = [] \<and>
    snd (setVolume this val reply p) = Returned \<and>
    callbacks (performed (getVolume this zoneReply) p) = [] \<and>
    snd (getVolume this zoneReply p) = Returned \<and>
    callbacks (performed (setOn_group this zones val zoneReply) p) = [] \<and>
    snd (setOn_group this zones val zoneReply p) = Returned \<and>
    callbacks (performed (getOn_group this zoneReply) p) = [] \<and>
    snd (getOn_group this zoneReply p) = Returned \<and>
    callbacks (performed (setVolume_group this zones val zoneReply) p) = [] \<and>
    snd (setVolume_group this zones val zoneReply p) = Returned \<and>
    callbacks (performed (getVolume_group this zoneReply) p) = [] \<and>
    snd (getVolume_group this zoneReply p) = Returned"
  using assms
  by (simp add: setOn_def getOn_def setVolume_def
      getVolume_def setOn_group_def getOn_group_def setVolume_group_def getVolume_group_def
      emit_simps performed_def)

theorem undefined_uri_no_callback_witness:
  "includes_js (casaTunesUri unconfigured) ''undefined'' \<and>
   callbacks (performed (getOn speaker (Json zoneOn)) unconfigured) = [] \<and>
   snd (getOn speaker (Json zoneOn) unconfigured) = Returned \<and>
   callbacks (performed (getOn speaker (Json zoneOn)) platform0) = [CallbackGet (JBool True)]"
  using undefined_uri_no_callback [where p = unconfigured and this = speaker
      and val = "JBool True" and reply = "Json ()" and zoneReply = "Json zoneOn" and zones = "[]"]
  by (simp add: unconfigured_def platform0_def getOn_def performed_def emit_def zoneOn_def)

subsection \<open>Group propagation\<close>

lemma reflectMember_miss:
  "resolve zones (accessories p) member = None \<Longrightarrow>
   reflectMember c label val zones member p = (p, Threw TypeError)"
  by (auto simp: resolve_def reflectMember_def split: option.splits)

text \<open>
  Claim C5. A group member without a resolvable accessory should be skipped and the
  SET should still complete. In the code the guarded write
  \<open>accessory?.getService(...)\<close> is followed by an unguarded
  \<open>accessory.displayName\<close> (and \<open>info.UUID\<close> is read unguarded before it): with a
  member \<open>z9\<close> that is not in the zone cache, both SET handlers end in a TypeError
  and never call back.
\<close>

theorem group_member_miss_throws:
  "resolve cache (accessories paired) \<lparr>zoneId = ''z9''\<rparr> = None \<and>
   snd (setOn_group speaker cache (JBool True) (Json groupReply) paired) = Threw TypeError \<and>
   callbacks (performed (setOn_group speaker cache (JBool True) (Json groupReply)) paired) = [] \<and>
   snd (setVolume_group speaker cache (JNum 40) (Json groupReply) paired) = Threw TypeError \<and>
   callbacks (performed (setVolume_group speaker cache (JNum 40) (Json groupReply)) paired) = []"
  by (simp add: group_defs scenario_defs paired_def cache_def groupReply_def speaker_def
      performed_def emit_def)

text \<open>
  Claim C1. A SET on a group should reach every member's accessory. With the members
  \<open>z9\<close> (not cached) and \<open>z2\<close> (cached, with an accessory) the loop stops at
  \<open>z9\<close>: one request has been sent, and no \<open>setCharacteristic\<close> call is made for
  the accessory of \<open>z2\<close>, in either SET handler. Listed the other way round, \<open>z2\<close>
  is reflected before the loop stops.
\<close>

theorem group_fanout_stops_at_miss:
  "includes_js (String_js (Shared groupReply)) ''true'' \<and>
   ZoneGroupInfo groupReply = Some [\<lparr>zoneId = ''z9''\<rparr>, \<lparr>zoneId = ''z2''\<rparr>] \<and>
   resolve cache (accessories paired) \<lparr>zoneId = ''z2''\<rparr> = Some (newAccessory uuid0 kitchen) \<and>
   fetches (performed (setOn_group speaker cache (JBool True) (Json groupReply)) paired) =
     [''http://casaserver:8735/api/v1/zones/z2?Power=true''] \<and>
   reflected (performed (setOn_group speaker cache (JBool True) (Json groupReply)) paired) = [] \<and>
   reflected (performed (setVolume_group speaker cache (JNum 40) (Json groupReply)) paired) = [] \<and>
   reflected (performed (setOn_group speaker cache (JBool True) (Json swappedReply)) paired) =
     [(newAccessory uuid0 kitchen, On, JBool True)] \<and>
   snd (setOn_group speaker cache (JBool True) (Json swappedReply) paired) = Threw TypeError"
  by (simp add: group_defs scenario_defs paired_def cache_def groupReply_def swappedReply_def
      speaker_def performed_def emit_def)

end
